theory Spec2Isabelle
  imports Main "HOL-Library.Sublist"
begin

section \<open>Python strings and JSON values\<close>

text \<open>
  A Python \<open>str\<close> is modelled as a \<open>string\<close>, each \<open>char\<close> being one code point
  below 256.  The helpers below are the \<open>str\<close> methods that \<open>enrich_leads.py\<close> calls.
\<close>

definition startswith :: "string \<Rightarrow> string \<Rightarrow> bool" where
  "startswith s p = (take (length p) s = p)"

definition endswith :: "string \<Rightarrow> string \<Rightarrow> bool" where
  "endswith s p = (length p \<le> length s \<and> drop (length s - length p) s = p)"

text \<open>\<open>sub in s\<close> on two strings: \<open>sub\<close> occurs in \<open>s\<close> as a contiguous block.\<close>

fun str_contains :: "string \<Rightarrow> string \<Rightarrow> bool" where
  "str_contains sub [] = (sub = [])"
| "str_contains sub (c # cs) = (startswith (c # cs) sub \<or> str_contains sub cs)"

text \<open>\<open>s.rstrip('/')\<close> removes every trailing slash.\<close>

definition rstrip_slash :: "string \<Rightarrow> string" where
  "rstrip_slash s = rev (dropWhile (\<lambda>c. c = CHR ''/'') (rev s))"

text \<open>
  \<open>str.isdigit\<close>: the decimal digits and, in the 8-bit range, the superscripts
  one, two and three (code points 185, 178, 179).
\<close>

definition isdigit :: "char \<Rightarrow> bool" where
  "isdigit c =
     (let n = of_char c :: nat in (48 \<le> n \<and> n \<le> 57) \<or> n = 178 \<or> n = 179 \<or> n = 185)"

text \<open>
  \<open>str.lower\<close>: the letters A to Z and the capital letters 192 to 222 (without the
  multiplication sign 215) move up by 32.
\<close>

definition lower_char :: "char \<Rightarrow> char" where
  "lower_char c =
     (let n = of_char c :: nat in
      if (65 \<le> n \<and> n \<le> 90) \<or> (192 \<le> n \<and> n \<le> 222 \<and> n \<noteq> 215) then char_of (n + 32) else c)"

definition lower :: "string \<Rightarrow> string" where
  "lower s = map lower_char s"

text \<open>
  The values \<open>json.loads\<close> returns.  A \<open>dict\<close> keeps its insertion order, so it is an
  association list; numbers are integers here (the pipeline only tests them for
  truth).
\<close>

datatype json =
    JNull
  | JBool bool
  | JNum int
  | JStr string
  | JList "json list"
  | JDict "(string \<times> json) list"

section \<open>Post-processing helpers\<close>

subsection \<open>\<open>detect_whatsapp\<close>\<close>

definition detect_whatsapp :: "string \<Rightarrow> string option" where
  "detect_whatsapp phone =
     (if phone = [] then None
      else
        let digits = filter isdigit phone in
        if length digits = 11 then Some (''https://wa.me/55'' @ digits)
        else if length digits = 10 then None
        else if length digits \<ge> 12 \<and> startswith digits ''55'' then
          (if length digits = 13 then Some (''https://wa.me/'' @ digits) else None)
        else None)"

subsection \<open>\<open>clean_recursive\<close>\<close>

text \<open>
  The source mutates the profile in place; the model returns the object as it is after
  the call.  A \<open>dict\<close> value that is a string holding the token becomes \<open>None\<close>; every
  other value is visited by the recursive call, which does something only on a
  \<open>dict\<close> or a \<open>list\<close>.
\<close>

definition is_pending :: "json \<Rightarrow> bool" where
  "is_pending v = (case v of JStr s \<Rightarrow> str_contains ''Pendente'' s | _ \<Rightarrow> False)"

primrec clean_recursive :: "json \<Rightarrow> json" where
  "clean_recursive JNull = JNull"
| "clean_recursive (JBool b) = JBool b"
| "clean_recursive (JNum n) = JNum n"
| "clean_recursive (JStr s) = JStr s"
| "clean_recursive (JList xs) = JList (map clean_recursive xs)"
| "clean_recursive (JDict kvs) =
     JDict (map (map_prod id (\<lambda>v. if is_pending v then JNull else clean_recursive v)) kvs)"

section \<open>Crawl planning\<close>

subsection \<open>\<open>normalize_url\<close>\<close>

definition normalize_url :: "string \<Rightarrow> string \<Rightarrow> string" where
  "normalize_url link_url base =
     (if \<not> startswith link_url ''http'' then
        (if \<not> endswith base ''/'' \<and> \<not> startswith link_url ''/'' then base @ ''/'' @ link_url
         else if endswith base ''/'' \<and> startswith link_url ''/'' then base @ drop 1 link_url
         else base @ link_url)
      else link_url)"

subsection \<open>The crawl plan\<close>

text \<open>
  A hyperlink of a crawl result is a \<open>dict\<close> with an \<open>href\<close> entry;
  \<open>link.get('href', '')\<close> reads it.
\<close>

type_synonym link = "(string \<times> string) list"

definition get_href :: "link \<Rightarrow> string" where
  "get_href l = (case map_of l ''href'' of None \<Rightarrow> [] | Some h \<Rightarrow> h)"

definition keywords_table :: "(string \<times> string list) list" where
  "keywords_table =
     [(''contact'', [''contato'', ''contact'', ''fale'', ''atendimento'']),
      (''about'', [''sobre'', ''about'', ''quem-somos'', ''institucional'', ''empresa'',
                   ''imobiliaria'']),
      (''services'', [''servicos'', ''services'', ''produtos'', ''products'', ''imoveis''])]"

definition social_keywords :: "(string \<times> string list) list" where
  "social_keywords =
     [(''instagram'', [''instagram.com'']),
      (''facebook'', [''facebook.com'']),
      (''linktree'', [''linktr.ee'']),
      (''linkedin'', [''linkedin.com''])]"

text \<open>
  The inner loop over the items of the source's \<open>keywords\<close> dict (here
  \<open>keywords_table\<close>), with its \<open>break\<close>.
\<close>

definition is_priority_href :: "string \<Rightarrow> bool" where
  "is_priority_href lower_href =
     list_ex (\<lambda>(key, ws). list_ex (\<lambda>w. str_contains w lower_href) ws) keywords_table"

record crawl_plan =
  unique_internal_urls :: "string set"
  priority_links :: "string list"
  other_links :: "string list"
  social_links_to_crawl :: "(string \<times> string) list"

definition empty_plan :: crawl_plan where
  "empty_plan = \<lparr>unique_internal_urls = {}, priority_links = [], other_links = [],
                  social_links_to_crawl = []\<rparr>"

text \<open>One round of \<open>for link in internal_links\<close>.\<close>

definition internal_step :: "string \<Rightarrow> crawl_plan \<Rightarrow> link \<Rightarrow> crawl_plan" where
  "internal_step base_url p l =
     (let href = get_href l in
      if href = [] then p
      else
        let full_url = normalize_url href base_url in
        if full_url \<in> unique_internal_urls p
           \<or> rstrip_slash full_url = rstrip_slash base_url then p
        else
          let p' = p\<lparr>unique_internal_urls := insert full_url (unique_internal_urls p)\<rparr> in
          if is_priority_href (lower href)
          then p'\<lparr>priority_links := priority_links p' @ [full_url]\<rparr>
          else p'\<lparr>other_links := other_links p' @ [full_url]\<rparr>)"

text \<open>
  One round of \<open>for link in external_links\<close>: for each platform not yet recorded whose
  domain occurs in the lower-cased \<open>href\<close>, the link's \<open>href\<close> is recorded.
\<close>

definition social_step :: "(string \<times> string) list \<Rightarrow> link \<Rightarrow> (string \<times> string) list" where
  "social_step social l =
     foldl (\<lambda>acc (key, domains).
              if map_of acc key = None \<and> list_ex (\<lambda>d. str_contains d (lower (get_href l))) domains
              then acc @ [(key, get_href l)] else acc)
       social social_keywords"

definition build_plan :: "string \<Rightarrow> link list \<Rightarrow> link list \<Rightarrow> crawl_plan" where
  "build_plan base_url internal_links external_links =
     (let p = foldl (internal_step base_url) empty_plan internal_links
      in p\<lparr>social_links_to_crawl := foldl social_step [] external_links\<rparr>)"

definition final_crawl_list :: "crawl_plan \<Rightarrow> string list" where
  "final_crawl_list p = priority_links p @ other_links p"

text \<open>The invariant of the loop over the internal links.\<close>

definition plan_inv :: "string \<Rightarrow> crawl_plan \<Rightarrow> bool" where
  "plan_inv base_url p \<longleftrightarrow>
     set (priority_links p @ other_links p) = unique_internal_urls p
     \<and> distinct (priority_links p @ other_links p)
     \<and> (\<forall>u \<in> unique_internal_urls p. rstrip_slash u \<noteq> rstrip_slash base_url)"

section \<open>Queue reader\<close>

text \<open>
  \<open>str.isspace\<close> on one character below 256: tab to carriage return, the separators
  28 to 31, the space, and the code points 133 and 160.
\<close>

definition isspace :: "char \<Rightarrow> bool" where
  "isspace c =
     (let n = of_char c :: nat in
      (9 \<le> n \<and> n \<le> 13) \<or> (28 \<le> n \<and> n \<le> 32) \<or> n = 133 \<or> n = 160)"

definition strip :: "string \<Rightarrow> string" where
  "strip s = rev (dropWhile isspace (rev (dropWhile isspace s)))"

text \<open>
  \<open>json.loads\<close> belongs to the standard library: it is a parameter \<open>loads\<close>, with
  \<open>None\<close> where it raises.

  \<open>iter_jsonl_objects\<close> reads a file that is not written to meanwhile: the file is
  the list of its lines, and \<open>jsonl_entry\<close> is the body of the loop: what one line
  makes the generator yield.
\<close>

definition jsonl_entry :: "(string \<Rightarrow> json option) \<Rightarrow> string \<Rightarrow> json list" where
  "jsonl_entry loads l =
     (let line = strip l in
      if line = [] \<or> line = ''__END__'' then []
      else (case loads line of Some v \<Rightarrow> [v] | None \<Rightarrow> []))"

definition iter_jsonl_objects :: "(string \<Rightarrow> json option) \<Rightarrow> string list \<Rightarrow> json list" where
  "iter_jsonl_objects loads lines = concat (map (jsonl_entry loads) lines)"

text \<open>
  \<open>iter_jsonl_lines_follow\<close> reads a file that may still grow.  The reads are the
  function \<open>rd\<close>: \<open>rd i\<close> is what the \<open>i\<close>-th call of \<open>f.readline()\<close> returns, the
  empty string when nothing new is in the file (the loop then sleeps and polls
  again).  The loop may run forever, so the result is an \<open>option\<close>: \<open>None\<close> is a
  loop that never returns, \<open>Some ys\<close> one that returns after yielding \<open>ys\<close>.
\<close>

partial_function (option) follow_loop ::
  "(string \<Rightarrow> json option) \<Rightarrow> (nat \<Rightarrow> string) \<Rightarrow> nat \<Rightarrow> json list \<Rightarrow> json list option" where
  "follow_loop loads rd i yielded =
     (if rd i = [] then follow_loop loads rd (Suc i) yielded
      else if strip (rd i) = [] then follow_loop loads rd (Suc i) yielded
      else if strip (rd i) = ''__END__'' then Some yielded
      else (case loads (strip (rd i)) of
              Some v \<Rightarrow> follow_loop loads rd (Suc i) (yielded @ [v])
            | None \<Rightarrow> follow_loop loads rd (Suc i) yielded))"

definition iter_jsonl_lines_follow ::
  "(string \<Rightarrow> json option) \<Rightarrow> (nat \<Rightarrow> string) \<Rightarrow> json list option" where
  "iter_jsonl_lines_follow loads rd = follow_loop loads rd 0 []"

text \<open>
  The reads of \<open>f.readline()\<close> on a file with the lines \<open>lines\<close> that nobody appends
  to: the lines in turn, then the empty string for ever.
\<close>

definition static_reader :: "string list \<Rightarrow> nat \<Rightarrow> string" where
  "static_reader lines i = (if i < length lines then lines ! i else [])"

text \<open>A stand-in for \<open>json.loads\<close> on concrete inputs: it parses the empty object only.\<close>

definition loads_empty_object :: "string \<Rightarrow> json option" where
  "loads_empty_object s = (if s = ''{}'' then Some (JDict []) else None)"

section \<open>Python values and the outside world\<close>

text \<open>The exceptions that the modelled code can raise on a JSON value of the wrong shape.\<close>

datatype error = TypeError | AttributeError | KeyError | NameError | ValueError

text \<open>Truth of a value, as \<open>if v:\<close> tests it.\<close>

definition py_truthy :: "json \<Rightarrow> bool" where
  "py_truthy v =
     (case v of JNull \<Rightarrow> False | JBool b \<Rightarrow> b | JNum n \<Rightarrow> n \<noteq> 0 | JStr s \<Rightarrow> s \<noteq> []
      | JList xs \<Rightarrow> xs \<noteq> [] | JDict d \<Rightarrow> d \<noteq> [])"

text \<open>\<open>d.get(k, dflt)\<close> on a \<open>dict\<close>.\<close>

definition dict_get :: "(string \<times> json) list \<Rightarrow> string \<Rightarrow> json \<Rightarrow> json" where
  "dict_get d k dflt = (case map_of d k of Some v \<Rightarrow> v | None \<Rightarrow> dflt)"

text \<open>\<open>d[k] = v\<close> on a \<open>dict\<close>: an existing key keeps its place, a new one goes last.\<close>

fun dict_set :: "(string \<times> json) list \<Rightarrow> string \<Rightarrow> json \<Rightarrow> (string \<times> json) list" where
  "dict_set [] k v = [(k, v)]"
| "dict_set ((k', v') # d) k v = (if k' = k then (k, v) # d else (k', v') # dict_set d k v)"

text \<open>\<open>for x in v\<close>: the elements of a list, the characters of a string, the keys of a \<open>dict\<close>.\<close>

definition py_iter :: "json \<Rightarrow> error + json list" where
  "py_iter v =
     (case v of JList xs \<Rightarrow> Inr xs | JStr s \<Rightarrow> Inr (map (\<lambda>c. JStr [c]) s)
      | JDict d \<Rightarrow> Inr (map (\<lambda>kv. JStr (fst kv)) d) | _ \<Rightarrow> Inl TypeError)"

text \<open>\<open>k in v\<close> for a string \<open>k\<close>.\<close>

definition py_in :: "string \<Rightarrow> json \<Rightarrow> error + bool" where
  "py_in k v =
     (case v of JDict d \<Rightarrow> Inr (k \<in> set (map fst d)) | JList xs \<Rightarrow> Inr (JStr k \<in> set xs)
      | JStr s \<Rightarrow> Inr (str_contains k s) | _ \<Rightarrow> Inl TypeError)"

text \<open>
  What the program reaches outside itself is a record of functions: the libraries and
  services are not part of the repository, so every property below holds for whatever
  they answer.  Where the real call may raise, the function returns \<open>None\<close> or an
  \<open>error\<close>.
\<close>

record page =
  markdown :: string
  html :: "string option"
  links_internal :: "link list"
  links_external :: "link list"

datatype reply =
    Reply (status_code: int) (retry_after: "string option") (body: "json option")
  | ConnectionError

record env =
  json_loads :: "string \<Rightarrow> json option"
  int_of_str :: "string \<Rightarrow> int option"
  sleep_raises :: "int \<Rightarrow> bool"
  hunter_get :: "string \<Rightarrow> nat \<Rightarrow> reply"
  validate_email :: "json \<Rightarrow> error + string option"
  crawler_arun :: "string \<Rightarrow> page option"
  chat_completion :: "string \<Rightarrow> json \<Rightarrow> json list \<Rightarrow> json option"
  cnpja_get :: "string \<Rightarrow> json option"

text \<open>
  \<^item> \<open>json_loads\<close>, \<open>int_of_str\<close>: \<open>json.loads\<close> and \<open>int\<close> on a string, \<open>None\<close> where
    they raise.
  \<^item> \<open>sleep_raises n\<close>: \<open>time.sleep(n)\<close> raises (a negative \<open>n\<close>, for one).
  \<^item> \<open>hunter_get domain k\<close>: the answer to the \<open>k\<close>-th \<open>requests.get\<close> of one call of
    \<open>fetch_hunter_emails\<close>: a response with its status, its \<open>Retry-After\<close> header and
    its JSON body (\<open>None\<close> where \<open>response.json()\<close> raises), or an exception.
  \<^item> \<open>validate_email\<close>: \<open>Inr (Some a)\<close> is the normalized address, \<open>Inr None\<close> is
    \<open>EmailNotValidError\<close>, \<open>Inl\<close> any other exception.
  \<^item> \<open>crawler_arun url\<close>: what \<open>crawl_page\<close> returns for the URL.
  \<^item> \<open>chat_completion content lead emails\<close>: the parsed answer of the completion
    service to the prompt built from these three, \<open>None\<close> where the call or the parsing
    raises.  Output language and search country are fixed for a run.
  \<^item> \<open>cnpja_get digits\<close>: the record built from the registry's answer, \<open>None\<close> on
    any failure.
\<close>

text \<open>The calls to services and the sleeps, in order, and the changes to the file system.\<close>

datatype event =
    Crawl string
  | HunterRequest string
  | Sleep int
  | Completion string json "json list"
  | CnpjaRequest string

datatype fs_op =
    WriteFile string "json list"
  | RemoveFile string

section \<open>Signal enrichment\<close>

subsection \<open>\<open>verify_email_address\<close> and \<open>fetch_hunter_emails\<close>\<close>

definition verify_email_address :: "env \<Rightarrow> json \<Rightarrow> error + string option" where
  "verify_email_address e email = validate_email e email"

text \<open>The loop over \<open>raw_emails\<close>.\<close>

fun valid_emails :: "env \<Rightarrow> json list \<Rightarrow> error + json list" where
  "valid_emails e [] = Inr []"
| "valid_emails e (x # xs) =
     (case x of
        JDict d \<Rightarrow>
          (let email_val = dict_get d ''value'' JNull in
           if py_truthy email_val then
             (case verify_email_address e email_val of
                Inl err \<Rightarrow> Inl err
              | Inr verified \<Rightarrow>
                  (case valid_emails e xs of
                     Inl err \<Rightarrow> Inl err
                   | Inr vs \<Rightarrow>
                       Inr ((case verified of
                               Some a \<Rightarrow> if a \<noteq> [] then [JStr a] else []
                             | None \<Rightarrow> []) @ vs)))
           else valid_emails e xs)
      | _ \<Rightarrow> Inl AttributeError)"

text \<open>The branch for status 200, from \<open>response.json()\<close> to \<open>valid_emails\<close>.\<close>

definition hunter_200 :: "env \<Rightarrow> json \<Rightarrow> error + json list" where
  "hunter_200 e data =
     (case data of
        JDict d \<Rightarrow>
          (case dict_get d ''data'' (JDict []) of
             JDict d1 \<Rightarrow>
               (case py_iter (dict_get d1 ''emails'' (JList [])) of
                  Inl err \<Rightarrow> Inl err
                | Inr raw_emails \<Rightarrow> valid_emails e raw_emails)
           | _ \<Rightarrow> Inl AttributeError)
      | _ \<Rightarrow> Inl AttributeError)"

definition BLACKLIST_DOMAINS :: "string list" where
  "BLACKLIST_DOMAINS = [''instagram.com'', ''facebook.com'', ''linkedin.com'', ''linktr.ee'',
                        ''twitter.com'', ''youtube.com'', ''tiktok.com'']"

definition max_attempts :: nat where
  "max_attempts = 3"

text \<open>
  \<open>int(retry_after) if retry_after else (2 ** attempts)\<close>, with the \<open>except\<close> branch
  for a header that \<open>int\<close> rejects.
\<close>

definition wait_seconds :: "env \<Rightarrow> string option \<Rightarrow> nat \<Rightarrow> int" where
  "wait_seconds e hdr attempts =
     (case hdr of
        None \<Rightarrow> 2 ^ attempts
      | Some h \<Rightarrow>
          if h = [] then 2 ^ attempts
          else (case int_of_str e h of Some n \<Rightarrow> n | None \<Rightarrow> 2 ^ attempts))"

text \<open>
  The \<open>while attempts < max_attempts\<close> loop.  The result is the log of requests and
  sleeps together with the list returned.  Every exception inside the \<open>try\<close> ends in
  the \<open>except\<close> branch, which returns the empty list.
\<close>

function hunter_loop :: "env \<Rightarrow> string \<Rightarrow> nat \<Rightarrow> event list \<Rightarrow> event list \<times> json list" where
  "hunter_loop e domain attempts log =
     (if attempts < max_attempts then
        (let attempts' = attempts + 1; log' = log @ [HunterRequest domain] in
         case hunter_get e domain attempts' of
           ConnectionError \<Rightarrow> (log', [])
         | Reply status hdr data \<Rightarrow>
             if status = 200 then
               (log', case data of
                        None \<Rightarrow> []
                      | Some d \<Rightarrow> (case hunter_200 e d of Inl err \<Rightarrow> [] | Inr vs \<Rightarrow> vs))
             else if status = 429 then
               (let w = wait_seconds e hdr attempts' in
                if sleep_raises e w then (log', [])
                else hunter_loop e domain attempts' (log' @ [Sleep w]))
             else (log', []))
      else (log, []))"
  by pat_completeness auto
termination
  by (relation "measure (\<lambda>(e, domain, attempts, log). max_attempts - attempts)") auto

definition fetch_hunter_emails :: "env \<Rightarrow> string \<Rightarrow> event list \<times> json list" where
  "fetch_hunter_emails e domain =
     (if list_ex (\<lambda>b. str_contains b domain) BLACKLIST_DOMAINS then ([], [])
      else hunter_loop e domain 0 [])"

declare hunter_loop.simps [simp del]

text \<open>The number of requests in a log.\<close>

definition hunter_requests :: "event list \<Rightarrow> nat" where
  "hunter_requests log =
     length (filter (\<lambda>ev. case ev of HunterRequest d \<Rightarrow> True | _ \<Rightarrow> False) log)"

subsection \<open>\<open>extract_tax_id\<close>\<close>

text \<open>
  \<open>str.upper\<close>: the letters a to z and the small letters 224 to 254 (without the
  division sign 247) move down by 32, the sharp s (223) becomes \<open>SS\<close>.  The capitals
  of the characters 181 and 255 lie beyond 255; they are left as they are, which no
  pattern below can tell apart.
\<close>

definition upper_char :: "char \<Rightarrow> char" where
  "upper_char c =
     (let n = of_char c :: nat in
      if (97 \<le> n \<and> n \<le> 122) \<or> (224 \<le> n \<and> n \<le> 254 \<and> n \<noteq> 247) then char_of (n - 32) else c)"

definition upper :: "string \<Rightarrow> string" where
  "upper s = concat (map (\<lambda>c. if c = CHR 0xDF then ''SS'' else [upper_char c]) s)"

text \<open>
  The regular expressions of the pattern table are sequences of three kinds of items:
  a character class repeated between \<open>lo\<close> and \<open>hi\<close> times (greedy), a negative
  lookbehind and a negative lookahead on one character.
\<close>

datatype atom =
    Rep "char \<Rightarrow> bool" nat nat
  | NotBehind "char \<Rightarrow> bool"
  | NotAhead "char \<Rightarrow> bool"

text \<open>
  \<open>re_matches p prev s\<close>: the matches of \<open>p\<close> at the start of \<open>s\<close>, the one that the
  backtracking matcher finds first at the head; \<open>prev\<close> is the character before \<open>s\<close>.
\<close>

fun re_matches :: "atom list \<Rightarrow> char option \<Rightarrow> string \<Rightarrow> string list" where
  "re_matches [] prev s = [[]]"
| "re_matches (NotBehind cls # as) prev s =
     (case prev of
        Some c \<Rightarrow> if cls c then [] else re_matches as prev s
      | None \<Rightarrow> re_matches as prev s)"
| "re_matches (NotAhead cls # as) prev s =
     (case s of
        c # cs \<Rightarrow> if cls c then [] else re_matches as prev s
      | [] \<Rightarrow> re_matches as prev s)"
| "re_matches (Rep cls lo hi # as) prev s =
     concat (map (\<lambda>k. map (\<lambda>m. take k s @ m)
                         (re_matches as (if k = 0 then prev else Some (s ! (k - 1))) (drop k s)))
                 (rev [lo ..< Suc (min hi (length (takeWhile cls s)))]))"

text \<open>\<open>re.search\<close>: the first match at the leftmost position that has one.\<close>

fun re_search_from :: "atom list \<Rightarrow> char option \<Rightarrow> string \<Rightarrow> string option" where
  "re_search_from p prev [] = (case re_matches p prev [] of m # ms \<Rightarrow> Some m | [] \<Rightarrow> None)"
| "re_search_from p prev (c # cs) =
     (case re_matches p prev (c # cs) of
        m # ms \<Rightarrow> Some m
      | [] \<Rightarrow> re_search_from p (Some c) cs)"

text \<open>With \<open>re.IGNORECASE\<close> a class also takes a character whose other case it takes.\<close>

definition atom_ic :: "bool \<Rightarrow> atom \<Rightarrow> atom" where
  "atom_ic ic a =
     (if ic then
        (case a of
           Rep cls lo hi \<Rightarrow> Rep (\<lambda>c. cls c \<or> cls (lower_char c) \<or> cls (upper_char c)) lo hi
         | other \<Rightarrow> other)
      else a)"

definition re_search :: "bool \<Rightarrow> atom list \<Rightarrow> string \<Rightarrow> string option" where
  "re_search ic p s = re_search_from (map (atom_ic ic) p) None s"

definition re_digit :: "char \<Rightarrow> bool" where
  "re_digit c = (48 \<le> (of_char c :: nat) \<and> (of_char c :: nat) \<le> 57)"

definition re_AZ :: "char \<Rightarrow> bool" where
  "re_AZ c = (65 \<le> (of_char c :: nat) \<and> (of_char c :: nat) \<le> 90)"

definition lit :: "char \<Rightarrow> atom" where
  "lit x = Rep (\<lambda>c. c = x) 1 1"

definition dig :: "nat \<Rightarrow> atom" where
  "dig n = Rep re_digit n n"

text \<open>The pattern of the entry \<open>BR\<close>, which the second attempt uses again.\<close>

definition br_pattern :: "atom list" where
  "br_pattern = [dig 2, lit CHR ''.'', dig 3, lit CHR ''.'', dig 3, lit CHR ''/'', dig 4,
                 lit CHR ''-'', dig 2]"

text \<open>The table \<open>patterns\<close>: country code, pattern, type, name.\<close>

definition patterns :: "(string \<times> atom list \<times> string \<times> string) list" where
  "patterns =
     [(''BR'', br_pattern,
       ''CNPJ'', ''Cadastro Nacional da Pessoa Jur'' @ [CHR 0xED] @ ''dica''),
      (''US'', [dig 2, lit CHR ''-'', dig 7], ''EIN'', ''Employer Identification Number''),
      (''GB'', [NotBehind re_digit, dig 8, NotAhead re_digit],
       ''Company Number'', ''UK Company Registration Number''),
      (''AU'', [dig 2, Rep isspace 0 1, dig 3, Rep isspace 0 1, dig 3, Rep isspace 0 1, dig 3],
       ''ABN'', ''Australian Business Number''),
      (''MX'', [Rep re_AZ 3 4, dig 6, Rep (\<lambda>c. re_AZ c \<or> re_digit c) 3 3],
       ''RFC'', ''Registro Federal de Contribuyentes''),
      (''AR'', [dig 2, lit CHR ''-'', dig 8, lit CHR ''-'', dig 1],
       ''CUIT'', ''Clave '' @ [CHR 0xDA] @ ''nica de Identificaci'' @ [CHR 0xF3]
                 @ ''n Tributaria''),
      (''PT'', [NotBehind re_digit, dig 9, NotAhead re_digit],
       ''NIF'', ''N'' @ [CHR 0xFA] @ ''mero de Identifica'' @ [CHR 0xE7, CHR 0xE3]
                @ ''o Fiscal''),
      (''DE'', [lit CHR ''D'', lit CHR ''E'', dig 9],
       ''VAT'', ''Umsatzsteuer-Identifikationsnummer''),
      (''FR'', [lit CHR ''F'', lit CHR ''R'', dig 11],
       ''VAT'', ''Num'' @ [CHR 0xE9] @ ''ro de TVA intracommunautaire''),
      (''ES'', [lit CHR ''E'', lit CHR ''S'', Rep (\<lambda>c. re_AZ c \<or> re_digit c) 1 1, dig 7,
                Rep (\<lambda>c. re_AZ c \<or> re_digit c) 1 1],
       ''NIF/CIF'', ''N'' @ [CHR 0xFA] @ ''mero de Identificaci'' @ [CHR 0xF3] @ ''n Fiscal''),
      (''IT'', [lit CHR ''I'', lit CHR ''T'', dig 11], ''VAT'', ''Partita IVA''),
      (''CA'', [dig 9, Rep re_AZ 2 2, dig 4], ''BN'', ''Business Number'')]"

definition eu_vat_pattern :: "atom list" where
  "eu_vat_pattern = [Rep re_AZ 2 2, Rep re_digit 9 12]"

record tax_id =
  tax_type :: string
  tax_value :: string
  tax_country :: string
  tax_name :: string

text \<open>
  The country hint is \<open>None\<close> or a string; \<open>if country_code\<close> is false for \<open>None\<close> and
  for the empty string.  The three attempts are in the order of the source.
\<close>

definition hint_given :: "string option \<Rightarrow> bool" where
  "hint_given country_code = (case country_code of None \<Rightarrow> False | Some cc \<Rightarrow> cc \<noteq> [])"

definition hint_attempt :: "string \<Rightarrow> string option \<Rightarrow> tax_id option" where
  "hint_attempt text country_code =
     (case country_code of
        None \<Rightarrow> None
      | Some cc \<Rightarrow>
          if cc = [] then None
          else (case map_of patterns (upper cc) of
                  None \<Rightarrow> None
                | Some (pat, ty, name) \<Rightarrow>
                    (case re_search True pat text of
                       None \<Rightarrow> None
                     | Some m \<Rightarrow>
                         Some \<lparr>tax_type = ty, tax_value = m, tax_country = upper cc,
                               tax_name = name\<rparr>)))"

definition br_attempt :: "string \<Rightarrow> string option \<Rightarrow> tax_id option" where
  "br_attempt text country_code =
     (if \<not> hint_given country_code \<or> map_option upper country_code = Some ''BR'' then
        (case re_search False br_pattern text of
           None \<Rightarrow> None
         | Some m \<Rightarrow>
             Some \<lparr>tax_type = ''CNPJ'', tax_value = m, tax_country = ''BR'',
                   tax_name = ''Cadastro Nacional da Pessoa Jur'' @ [CHR 0xED] @ ''dica''\<rparr>)
      else None)"

definition vat_attempt :: "string \<Rightarrow> tax_id option" where
  "vat_attempt text =
     (case re_search False eu_vat_pattern (upper text) of
        None \<Rightarrow> None
      | Some vat_value \<Rightarrow>
          Some \<lparr>tax_type = ''VAT'', tax_value = vat_value, tax_country = take 2 vat_value,
                tax_name = ''VAT Number''\<rparr>)"

definition extract_tax_id :: "string \<Rightarrow> string option \<Rightarrow> tax_id option" where
  "extract_tax_id text country_code =
     (if text = [] then None
      else (case hint_attempt text country_code of
              Some r \<Rightarrow> Some r
            | None \<Rightarrow>
                (case br_attempt text country_code of
                   Some r \<Rightarrow> Some r
                 | None \<Rightarrow> vat_attempt text)))"

subsection \<open>\<open>detect_tech_stack\<close>\<close>

definition checks :: "(string \<times> string list) list" where
  "checks =
     [(''WordPress'', [''wp-content'', ''generator'' @ [CHR 0x22] @ '' content=''
                       @ [CHR 0x22] @ ''wordpress'']),
      (''Wix'', [''wix.com'', ''wix-dns'']),
      (''RD Station'', [''d335luupugsy2.cloudfront.net'', ''rdstation'']),
      (''Shopify'', [''shopify'']),
      (''Google Analytics'', [''googletagmanager'', ''ua-'', ''g-'']),
      (''Facebook Pixel'', [''fbevents.js'']),
      (''Hotjar'', [''hotjar'']),
      (''Vercel'', [''vercel'']),
      (''Next.js'', [''__next'']),
      (''Nuxt.js'', [''__nuxt''])]"

text \<open>The argument is \<open>None\<close> or a string; both \<open>None\<close> and the empty string give \<open>[]\<close>.\<close>

definition detect_tech_stack :: "string option \<Rightarrow> string list" where
  "detect_tech_stack html_content =
     (case html_content of
        None \<Rightarrow> []
      | Some h \<Rightarrow>
          if h = [] then []
          else map fst (filter (\<lambda>(tech, ks). list_ex (\<lambda>k. str_contains k (lower h)) ks) checks))"

section \<open>Processing one lead\<close>

subsection \<open>Operations on values of any shape\<close>

text \<open>Sequencing of steps that may raise.\<close>

definition bind_err :: "error + 'a \<Rightarrow> ('a \<Rightarrow> error + 'b) \<Rightarrow> error + 'b" where
  "bind_err m f = (case m of Inl err \<Rightarrow> Inl err | Inr x \<Rightarrow> f x)"

text \<open>\<open>v.get(k, dflt)\<close>, \<open>v[k]\<close> and \<open>v[k] = x\<close> for a string \<open>k\<close>.\<close>

definition py_get :: "json \<Rightarrow> string \<Rightarrow> json \<Rightarrow> error + json" where
  "py_get v k dflt = (case v of JDict d \<Rightarrow> Inr (dict_get d k dflt) | _ \<Rightarrow> Inl AttributeError)"

definition py_getitem :: "json \<Rightarrow> string \<Rightarrow> error + json" where
  "py_getitem v k =
     (case v of
        JDict d \<Rightarrow> (case map_of d k of Some x \<Rightarrow> Inr x | None \<Rightarrow> Inl KeyError)
      | _ \<Rightarrow> Inl TypeError)"

definition py_setitem :: "json \<Rightarrow> string \<Rightarrow> json \<Rightarrow> error + json" where
  "py_setitem v k x = (case v of JDict d \<Rightarrow> Inr (JDict (dict_set d k x)) | _ \<Rightarrow> Inl TypeError)"

text \<open>
  \<open>"".join(filter(str.isdigit, v))\<close>: on a string the digits among its characters; on
  a list or a \<open>dict\<close> the elements (keys) that are digit strings, all of which must be
  strings.
\<close>

definition str_isdigit :: "string \<Rightarrow> bool" where
  "str_isdigit s = (s \<noteq> [] \<and> list_all isdigit s)"

fun str_elems :: "json list \<Rightarrow> error + string list" where
  "str_elems [] = Inr []"
| "str_elems (x # xs) =
     (case x of
        JStr s \<Rightarrow> (case str_elems xs of Inl err \<Rightarrow> Inl err | Inr ss \<Rightarrow> Inr (s # ss))
      | _ \<Rightarrow> Inl TypeError)"

definition join_isdigit :: "json \<Rightarrow> error + string" where
  "join_isdigit v =
     (case v of
        JStr s \<Rightarrow> Inr (filter isdigit s)
      | JList xs \<Rightarrow> bind_err (str_elems xs) (\<lambda>ss. Inr (concat (filter str_isdigit ss)))
      | JDict d \<Rightarrow> Inr (concat (filter str_isdigit (map fst d)))
      | _ \<Rightarrow> Inl TypeError)"

text \<open>
  \<open>detect_whatsapp\<close> on a phone of any shape.  For a phone that is not a string the
  digits are joined first; \<open>detect_whatsapp\<close> on the joined digits then takes the same
  branches, since filtering digits out of digits changes nothing.
\<close>

definition detect_whatsapp_value :: "json \<Rightarrow> error + string option" where
  "detect_whatsapp_value phone =
     (if \<not> py_truthy phone then Inr None
      else (case phone of
              JStr s \<Rightarrow> Inr (detect_whatsapp s)
            | _ \<Rightarrow> bind_err (join_isdigit phone) (\<lambda>digits. Inr (detect_whatsapp digits))))"

subsection \<open>The website stages\<close>

definition nl :: string where
  "nl = [CHR 0x0A]"

definition nao_disponivel :: string where
  "nao_disponivel = ''N'' @ [CHR 0xE3] @ ''o dispon'' @ [CHR 0xED] @ ''vel''"

text \<open>
  The test on \<open>item.get('website')\<close>: \<open>Inr (Some base_url)\<close> when the lead has a
  website (the URL with its scheme), \<open>Inr None\<close> when it has none, \<open>Inl\<close> where the
  test or \<open>startswith\<close> raises on a value that is not a string.
\<close>

definition website_of :: "json \<Rightarrow> error + string option" where
  "website_of w =
     (case w of
        JStr s \<Rightarrow>
          if s \<noteq> [] \<and> \<not> str_contains ''google.com'' s \<and> s \<noteq> nao_disponivel
          then Inr (Some (if startswith s ''http'' then s else ''http://'' @ s))
          else Inr None
      | JList xs \<Rightarrow> if xs \<noteq> [] \<and> JStr ''google.com'' \<notin> set xs then Inl AttributeError else Inr None
      | JDict d \<Rightarrow>
          if d \<noteq> [] \<and> ''google.com'' \<notin> set (map fst d) then Inl AttributeError else Inr None
      | JNum n \<Rightarrow> if n \<noteq> 0 then Inl TypeError else Inr None
      | JBool b \<Rightarrow> if b then Inl TypeError else Inr None
      | JNull \<Rightarrow> Inr None)"

text \<open>\<open>key.capitalize()\<close>, \<open>sep.join(xs)\<close> and \<open>s.replace(old, '')\<close>.\<close>

definition capitalize :: "string \<Rightarrow> string" where
  "capitalize s = (case s of [] \<Rightarrow> [] | c # cs \<Rightarrow> upper [c] @ lower cs)"

fun join :: "string \<Rightarrow> string list \<Rightarrow> string" where
  "join sep [] = []"
| "join sep [x] = x"
| "join sep (x # y # ys) = x @ sep @ join sep (y # ys)"

function str_remove :: "string \<Rightarrow> string \<Rightarrow> string" where
  "str_remove old [] = []"
| "str_remove old (c # cs) =
     (if old \<noteq> [] \<and> startswith (c # cs) old
      then str_remove old (drop (length old) (c # cs))
      else c # str_remove old cs)"
  by pat_completeness auto
termination
  by (relation "measure (\<lambda>(old, s). length s)") auto

text \<open>The loop over \<open>final_crawl_list\<close>: the calls and the text added to \<open>full_content\<close>.\<close>

fun crawl_pages :: "env \<Rightarrow> string list \<Rightarrow> event list \<times> string" where
  "crawl_pages e [] = ([], [])"
| "crawl_pages e (link_url # us) =
     (let (l, c) = crawl_pages e us in
      (Crawl link_url # l,
       (case crawler_arun e link_url of
          Some sub_result \<Rightarrow> nl @ ''# Page: '' @ link_url @ nl @ markdown sub_result @ nl
        | None \<Rightarrow> []) @ c))"

text \<open>
  The loop over \<open>social_links_to_crawl\<close>: a social page that was fetched adds at most
  2000 characters, and its link is stored in the lead under the platform's key.
\<close>

fun crawl_socials ::
  "env \<Rightarrow> (string \<times> string) list \<Rightarrow> (string \<times> json) list
     \<Rightarrow> event list \<times> string \<times> (string \<times> json) list" where
  "crawl_socials e [] item = ([], [], item)"
| "crawl_socials e ((key, link_url) # rest) item =
     (case crawler_arun e link_url of
        Some sub_result \<Rightarrow>
          (let (l, c, item') = crawl_socials e rest (dict_set item key (JStr link_url)) in
           (Crawl link_url # l,
            nl @ ''# Social Media ('' @ capitalize key @ '')'' @ nl
              @ take 2000 (markdown sub_result) @ nl @ c,
            item'))
      | None \<Rightarrow>
          (let (l, c, item') = crawl_socials e rest item in (Crawl link_url # l, c, item')))"

record website_result =
  ws_log :: "event list"
  ws_content :: string
  ws_item :: "(string \<times> json) list"
  ws_hunter_emails :: "json list"
  ws_home_result :: "page option"

definition website_stage :: "env \<Rightarrow> string \<Rightarrow> (string \<times> json) list \<Rightarrow> website_result" where
  "website_stage e base_url item =
     (let home_result = crawler_arun e base_url;
          c0 = (case home_result of
                  Some p \<Rightarrow> ''# Homepage'' @ nl @ markdown p @ nl
                | None \<Rightarrow> []);
          internal_links = (case home_result of Some p \<Rightarrow> links_internal p | None \<Rightarrow> []);
          external_links = (case home_result of Some p \<Rightarrow> links_external p | None \<Rightarrow> []);
          plan = build_plan base_url internal_links external_links;
          (l1, c1) = crawl_pages e (final_crawl_list plan);
          (l2, c2, item') = crawl_socials e (social_links_to_crawl plan) item;
          domain = takeWhile (\<lambda>c. c \<noteq> CHR ''/'')
                     (str_remove ''https://'' (str_remove ''http://'' base_url));
          (l3, hunter_emails) = fetch_hunter_emails e domain
      in \<lparr>ws_log = Crawl base_url # l1 @ l2 @ l3, ws_content = c0 @ c1 @ c2, ws_item = item',
          ws_hunter_emails = hunter_emails, ws_home_result = home_result\<rparr>)"

subsection \<open>Detected data\<close>

definition country_map :: "(string \<times> string) list" where
  "country_map =
     [(''Brazil'', ''BR''), (''Brasil'', ''BR''), (''USA'', ''US''), (''United States'', ''US''),
      (''France'', ''FR''), (''Germany'', ''DE''), (''UK'', ''GB''), (''United Kingdom'', ''GB''),
      (''Australia'', ''AU''), (''Mexico'', ''MX''), (''M'' @ [CHR 0xE9] @ ''xico'', ''MX''),
      (''Argentina'', ''AR''), (''Portugal'', ''PT''), (''Spain'', ''ES''), (''Italy'', ''IT''),
      (''Canada'', ''CA'')]"

definition country_code_for_extraction :: "string option \<Rightarrow> string option" where
  "country_code_for_extraction search_country =
     (case search_country of
        None \<Rightarrow> None
      | Some sc \<Rightarrow> if sc = [] then None else map_of country_map sc)"

definition system_context :: "tax_id option \<Rightarrow> string list \<Rightarrow> string" where
  "system_context detected_tax_id detected_tech_stack =
     nl @ nl @ ''[SYSTEM DETECTED DATA (High Confidence)]'' @ nl
     @ (case detected_tax_id of
          Some t \<Rightarrow> ''TAX ID: '' @ tax_type t @ '' - '' @ tax_value t @ nl
        | None \<Rightarrow> [])
     @ (if detected_tech_stack \<noteq> []
        then ''TECH STACK: '' @ join '', '' detected_tech_stack @ nl else [])"

subsection \<open>Post-processing of the fused profile\<close>

text \<open>The loop over \<open>raw_final_emails\<close> and the loop over \<open>phones\<close>.\<close>

fun validated_emails :: "env \<Rightarrow> json list \<Rightarrow> error + json list" where
  "validated_emails e [] = Inr []"
| "validated_emails e (mail # ms) =
     bind_err (verify_email_address e mail) (\<lambda>v_mail.
     bind_err (validated_emails e ms) (\<lambda>vs.
       Inr ((case v_mail of Some a \<Rightarrow> if a \<noteq> [] then [JStr a] else [] | None \<Rightarrow> []) @ vs)))"

fun whatsapp_links :: "json list \<Rightarrow> error + json list" where
  "whatsapp_links [] = Inr []"
| "whatsapp_links (p # ps) =
     bind_err (detect_whatsapp_value p) (\<lambda>wa.
     bind_err (whatsapp_links ps) (\<lambda>ws.
       Inr ((case wa of
               Some l \<Rightarrow> [JDict [(''phone'', p), (''link'', JStr l)]]
             | None \<Rightarrow> []) @ ws)))"

definition fix_emails :: "env \<Rightarrow> json \<Rightarrow> error + json" where
  "fix_emails e cd =
     bind_err (py_in ''emails'' cd) (\<lambda>has.
       if \<not> has then Inr cd
       else
         bind_err (py_getitem cd ''emails'') (\<lambda>raw_final_emails.
         bind_err (py_iter raw_final_emails) (\<lambda>mails.
         bind_err (validated_emails e mails) (\<lambda>validated_final_emails.
           py_setitem cd ''emails'' (JList validated_final_emails)))))"

definition fix_phones :: "json \<Rightarrow> error + json" where
  "fix_phones cd =
     bind_err (py_in ''phones'' cd) (\<lambda>has.
       if \<not> has then Inr cd
       else
         bind_err (py_getitem cd ''phones'') (\<lambda>phones.
         bind_err (py_iter phones) (\<lambda>ps.
         bind_err (whatsapp_links ps) (\<lambda>links.
           if links \<noteq> [] then py_setitem cd ''whatsapp_verified'' (JList links)
           else Inr cd))))"

text \<open>
  The block under \<open>if 'contact_details' in clean_profile\<close>.  The source changes the
  inner \<open>dict\<close> in place; here it is stored back under its key.
\<close>

definition contact_stage :: "env \<Rightarrow> json \<Rightarrow> error + json" where
  "contact_stage e clean_profile =
     bind_err (py_in ''contact_details'' clean_profile) (\<lambda>has.
       if \<not> has then Inr clean_profile
       else
         bind_err (py_getitem clean_profile ''contact_details'') (\<lambda>cd.
         bind_err (fix_emails e cd) (\<lambda>cd1.
         bind_err (fix_phones cd1) (\<lambda>cd2.
           py_setitem clean_profile ''contact_details'' cd2))))"

text \<open>\<open>(x or '').upper()\<close>.\<close>

definition upper_or_empty :: "json \<Rightarrow> error + string" where
  "upper_or_empty x =
     (if \<not> py_truthy x then Inr []
      else (case x of JStr s \<Rightarrow> Inr (upper s) | _ \<Rightarrow> Inl AttributeError))"

text \<open>
  \<open>fetch_cnpja_data\<close>: the check of the digits is the source's; the request and the
  record built from its answer are \<open>cnpja_get\<close>.
\<close>

definition fetch_cnpja_data :: "env \<Rightarrow> json \<Rightarrow> error + event list \<times> json" where
  "fetch_cnpja_data e cnpj =
     (if \<not> py_truthy cnpj then Inr ([], JNull)
      else
        bind_err (join_isdigit cnpj) (\<lambda>digits.
          if length digits \<noteq> 14 then Inr ([], JNull)
          else Inr ([CnpjaRequest digits],
                    case cnpja_get e digits of Some r \<Rightarrow> r | None \<Rightarrow> JNull)))"

definition cnpja_stage :: "env \<Rightarrow> json \<Rightarrow> error + event list \<times> json" where
  "cnpja_stage e clean_profile =
     bind_err (py_get clean_profile ''company_info'' (JDict [])) (\<lambda>company_info.
     bind_err (py_get company_info ''tax_id'' JNull) (\<lambda>tax_id_info.
       case tax_id_info of
         JDict t \<Rightarrow>
           if t = [] then Inr ([], JNull)
           else
             bind_err (upper_or_empty (dict_get t ''type'' JNull)) (\<lambda>tax_type.
             bind_err (upper_or_empty (dict_get t ''country'' JNull)) (\<lambda>tax_country.
               if tax_type = ''CNPJ'' \<or> tax_country = ''BR'' then
                 (if py_truthy (dict_get t ''value'' JNull)
                  then fetch_cnpja_data e (dict_get t ''value'' JNull)
                  else Inr ([], JNull))
               else Inr ([], JNull)))
       | _ \<Rightarrow> Inr ([], JNull)))"

definition post_process :: "env \<Rightarrow> json \<Rightarrow> error + event list \<times> json" where
  "post_process e clean_profile =
     bind_err (contact_stage e clean_profile) (\<lambda>p1.
     bind_err (cnpja_stage e (clean_recursive p1)) (\<lambda>(l, cnpja_data).
     bind_err (py_setitem (clean_recursive p1) ''cnpja_data'' cnpja_data) (\<lambda>p3.
       Inr (l, p3))))"

subsection \<open>The body of the loop over the leads\<close>

text \<open>
  \<open>process_lead\<close> is the block that \<open>main\<close> holds three times (backfill loop, follow
  loop, bounded mode).  It returns the calls made and the profile appended to
  \<open>final_leads\<close>, if any; an exception that nothing catches is \<open>Inl\<close>.
\<close>

definition process_lead ::
  "env \<Rightarrow> string option \<Rightarrow> json \<Rightarrow> error + event list \<times> json option" where
  "process_lead e search_country item =
     (case item of
        JDict d \<Rightarrow>
          bind_err (website_of (dict_get d ''website'' JNull)) (\<lambda>w.
            let ws = (case w of
                        Some base_url \<Rightarrow> website_stage e base_url d
                      | None \<Rightarrow> \<lparr>ws_log = [], ws_content = [], ws_item = d,
                                  ws_hunter_emails = [], ws_home_result = None\<rparr>);
                detected_tax_id =
                  (case ws_home_result ws of
                     Some p \<Rightarrow>
                       extract_tax_id (markdown p) (country_code_for_extraction search_country)
                   | None \<Rightarrow> None);
                detected_tech_stack =
                  (case ws_home_result ws of Some p \<Rightarrow> detect_tech_stack (html p) | None \<Rightarrow> []);
                full_content = ws_content ws @ system_context detected_tax_id detected_tech_stack;
                fuse = Completion (take 20000 full_content) (JDict (ws_item ws))
                         (ws_hunter_emails ws)
            in (case chat_completion e (take 20000 full_content) (JDict (ws_item ws))
                       (ws_hunter_emails ws) of
                  None \<Rightarrow> Inr (ws_log ws @ [fuse], None)
                | Some clean_profile \<Rightarrow>
                    if \<not> py_truthy clean_profile then Inr (ws_log ws @ [fuse], None)
                    else
                      bind_err (post_process e clean_profile) (\<lambda>(l, p).
                        Inr (ws_log ws @ [fuse] @ l, Some p))))
      | _ \<Rightarrow> Inl AttributeError)"

section \<open>The run\<close>

text \<open>The state of the loops of \<open>main\<close>: the calls so far and \<open>final_leads\<close>.\<close>

type_synonym run_state = "event list \<times> json list"

definition process_item ::
  "env \<Rightarrow> string option \<Rightarrow> run_state \<Rightarrow> json \<Rightarrow> error + run_state" where
  "process_item e search_country st item =
     bind_err (process_lead e search_country item) (\<lambda>(l, prof).
       Inr (fst st @ l, snd st @ (case prof of Some p \<Rightarrow> [p] | None \<Rightarrow> [])))"

text \<open>\<open>for item in iter_jsonl_objects(json_file)\<close>, the loop over a finite list of leads.\<close>

fun process_all ::
  "env \<Rightarrow> string option \<Rightarrow> run_state \<Rightarrow> json list \<Rightarrow> error + run_state" where
  "process_all e search_country st [] = Inr st"
| "process_all e search_country st (item # items) =
     bind_err (process_item e search_country st item) (\<lambda>st'.
       process_all e search_country st' items)"

text \<open>
  \<open>for item in iter_jsonl_lines_follow(json_file)\<close>: the generator of the queue reader
  with the body of the loop run between two reads.  \<open>None\<close> is a loop that runs for
  ever.
\<close>

partial_function (option) follow_for ::
  "env \<Rightarrow> string option \<Rightarrow> (nat \<Rightarrow> string) \<Rightarrow> nat \<Rightarrow> run_state \<Rightarrow> (error + run_state) option" where
  "follow_for e search_country rd i st =
     (if rd i = [] then follow_for e search_country rd (Suc i) st
      else if strip (rd i) = [] then follow_for e search_country rd (Suc i) st
      else if strip (rd i) = ''__END__'' then Some (Inr st)
      else (case json_loads e (strip (rd i)) of
              None \<Rightarrow> follow_for e search_country rd (Suc i) st
            | Some item \<Rightarrow>
                (case process_item e search_country st item of
                   Inl err \<Rightarrow> Some (Inl err)
                 | Inr st' \<Rightarrow> follow_for e search_country rd (Suc i) st')))"

declare follow_for.simps [code]

text \<open>
  The input file.  In streaming mode \<open>snapshot\<close> holds the lines that are in the file
  when the backfill loop reads it, and \<open>appended\<close> what the reads of the follow loop
  return once they are past these lines (the empty string while nothing new is there).
  The follow loop opens the file again, so its reads start at the first line of the
  file.  In bounded mode the text of the file is the lines of \<open>snapshot\<close> together.
\<close>

record queue_file =
  snapshot :: "string list"
  appended :: "nat \<Rightarrow> string"

definition follow_reads :: "queue_file \<Rightarrow> nat \<Rightarrow> string" where
  "follow_reads q i =
     (if i < length (snapshot q) then snapshot q ! i else appended q (i - length (snapshot q)))"

text \<open>
  Bounded mode.  The \<open>for\<close> loop over \<open>items\<close> holds two assignments only; the
  processing comes after the loop and sees the bindings that the last round left.
  With no round at all \<open>base_url\<close> is unbound.
\<close>

definition is_dict :: "json \<Rightarrow> bool" where
  "is_dict v = (case v of JDict d \<Rightarrow> True | _ \<Rightarrow> False)"

definition bounded_loop :: "json list \<Rightarrow> error + json" where
  "bounded_loop items =
     (if \<not> list_all is_dict items then Inl AttributeError
      else if items = [] then Inl NameError
      else Inr (last items))"

definition bounded_run :: "env \<Rightarrow> string option \<Rightarrow> queue_file \<Rightarrow> error + run_state" where
  "bounded_run e search_country q =
     (case json_loads e (concat (snapshot q)) of
        None \<Rightarrow> Inl ValueError
      | Some loaded \<Rightarrow>
          bind_err (py_iter loaded) (\<lambda>items.
          bind_err (bounded_loop items) (\<lambda>item.
            process_item e search_country ([], []) item)))"

record run_result =
  calls :: "event list"
  final_leads :: "json list"
  fs_ops :: "fs_op list"
  files :: "string set"

text \<open>
  The end of \<open>main\<close>: the output file is written, then the input file is removed if
  the run is not in streaming mode and the file exists.  A path is its string.
\<close>

definition finish ::
  "bool \<Rightarrow> string \<Rightarrow> string \<Rightarrow> string set \<Rightarrow> run_state \<Rightarrow> run_result" where
  "finish stream_mode json_file final_file fs st =
     (if \<not> stream_mode \<and> json_file \<in> insert final_file fs then
        \<lparr>calls = fst st, final_leads = snd st,
         fs_ops = [WriteFile final_file (snd st), RemoveFile json_file],
         files = insert final_file fs - {json_file}\<rparr>
      else
        \<lparr>calls = fst st, final_leads = snd st,
         fs_ops = [WriteFile final_file (snd st)],
         files = insert final_file fs\<rparr>)"

definition stream_mode_of :: "string \<Rightarrow> bool" where
  "stream_mode_of json_file = endswith (lower json_file) ''.jsonl''"

text \<open>
  \<open>main\<close>, with \<open>sys.argv\<close>, the path of the output file, the set of the paths that
  exist and the input file.  The result is \<open>None\<close> for a run that never ends,
  \<open>Some (Inl err)\<close> for one that an exception ends, \<open>Some (Inr r)\<close> for one that
  reaches the end of \<open>main\<close>.
\<close>

definition main ::
  "env \<Rightarrow> string list \<Rightarrow> string \<Rightarrow> string set \<Rightarrow> queue_file \<Rightarrow> (error + run_result) option" where
  "main e argv final_file fs q =
     (if length argv < 2 then
        Some (Inr \<lparr>calls = [], final_leads = [], fs_ops = [], files = fs\<rparr>)
      else
        let json_file = argv ! 1;
            search_country = (if length argv > 3 then Some (argv ! 3) else None)
        in
          if json_file \<notin> fs then
            Some (Inr \<lparr>calls = [], final_leads = [], fs_ops = [], files = fs\<rparr>)
          else if stream_mode_of json_file then
            (case process_all e search_country ([], [])
                    (iter_jsonl_objects (json_loads e) (snapshot q)) of
               Inl err \<Rightarrow> Some (Inl err)
             | Inr st \<Rightarrow>
                 (case follow_for e search_country (follow_reads q) 0 st of
                    None \<Rightarrow> None
                  | Some (Inl err) \<Rightarrow> Some (Inl err)
                  | Some (Inr st') \<Rightarrow> Some (Inr (finish True json_file final_file fs st'))))
          else
            (case bounded_run e search_country q of
               Inl err \<Rightarrow> Some (Inl err)
             | Inr st \<Rightarrow> Some (Inr (finish False json_file final_file fs st))))"

section \<open>A concrete world\<close>

text \<open>
  Services for the concrete runs below.  \<open>example_loads\<close> agrees with \<open>json.loads\<close> on
  the three texts it parses and is never applied to another valid JSON text.  The
  completion service answers every lead with a profile that holds the lead's name; the
  first answer of the email service is status 429 with \<open>Retry-After: 2\<close>, every later
  one status 500; no page can be crawled.
\<close>

definition lead_A_text :: string where
  \<open>lead_A_text = ''{"nome_empresa": "A"}''\<close>

definition two_leads_text :: string where
  \<open>two_leads_text = ''[{"nome_empresa": "A"}, {"nome_empresa": "B"}]''\<close>

definition lead_A :: json where
  "lead_A = JDict [(''nome_empresa'', JStr ''A'')]"

definition lead_B :: json where
  "lead_B = JDict [(''nome_empresa'', JStr ''B'')]"

definition example_loads :: "string \<Rightarrow> json option" where
  "example_loads s =
     (if s = ''{}'' then Some (JDict [])
      else if s = lead_A_text then Some lead_A
      else if s = two_leads_text then Some (JList [lead_A, lead_B])
      else None)"

definition example_env :: env where
  "example_env =
     \<lparr>json_loads = example_loads,
      int_of_str = (\<lambda>s. if s = ''2'' then Some 2 else None),
      sleep_raises = (\<lambda>n. n < 0),
      hunter_get = (\<lambda>domain k. if k = 1 then Reply 429 (Some ''2'') None
                                else Reply 500 None None),
      validate_email = (\<lambda>v. Inr None),
      crawler_arun = (\<lambda>url. None),
      chat_completion =
        (\<lambda>content lead emails.
           Some (JDict [(''company_info'',
                         JDict [(''name'', case lead of
                                             JDict d \<Rightarrow> dict_get d ''nome_empresa'' JNull
                                           | _ \<Rightarrow> JNull)])])),
      cnpja_get = (\<lambda>digits. None)\<rparr>"

text \<open>The profile that this world's run appends for a lead with the given name.\<close>

definition example_profile :: "json \<Rightarrow> json" where
  "example_profile name =
     JDict [(''company_info'', JDict [(''name'', name)]), (''cnpja_data'', JNull)]"

section \<open>Verified properties\<close>

subsection \<open>String helpers\<close>

lemma startswith_append:
  assumes "startswith b p"
  shows "startswith (b @ x) p"
proof -
  from assms have "take (length p) b = p" by (simp add: startswith_def)
  then have "length (take (length p) b) = length p" by simp
  then have "length p \<le> length b" by simp
  with assms show ?thesis by (simp add: startswith_def)
qed

subsection \<open>Recursive placeholder scrub\<close>

text \<open>
  Claim C3.  The scrub is claimed to replace every string that holds the token
  \<open>Pendente\<close>, strings that are elements of a list included.  On the profile
  \<open>{"a": ["Pendente"]}\<close> the code leaves the list element as it is: the \<open>list\<close>
  branch only calls \<open>clean_recursive\<close> on the element, and that call does nothing on
  a string.
\<close>

theorem C3_list_element_kept:
  "clean_recursive (JDict [(''a'', JList [JStr ''Pendente''])])
     = JDict [(''a'', JList [JStr ''Pendente''])]"
  by (simp add: is_pending_def)

lemma clean_recursive_nested_dict:
  "clean_recursive (JDict [(''a'', JDict [(''b'', JStr ''Pendente'')])])
     = JDict [(''a'', JDict [(''b'', JNull)])]"
  by (simp add: is_pending_def startswith_def)

subsection \<open>URL normalization\<close>

text \<open>
  Claim C7.  For a base URL that begins with \<open>http\<close> and any link, normalizing the
  normalized link against the same base gives the normalized link again.
\<close>

theorem C7_normalize_url_idempotent:
  "startswith base ''http'' \<Longrightarrow>
     normalize_url (normalize_url link_url base) base = normalize_url link_url base"
  unfolding normalize_url_def by (simp add: startswith_append)

theorem C7_normalize_url_idempotent_witness:
  "startswith ''http://a.com'' ''http'' \<and>
   normalize_url (normalize_url ''contato'' ''http://a.com'') ''http://a.com''
     = ''http://a.com/contato''"
  using C7_normalize_url_idempotent [of "''http://a.com''" "''contato''"]
  by (simp add: normalize_url_def startswith_def endswith_def)

subsection \<open>Messaging deep-links\<close>

lemma detect_whatsapp_digits:
  "detect_whatsapp phone =
     (let d = filter isdigit phone in
      if length d = 11 then Some (''https://wa.me/55'' @ d)
      else if length d = 13 \<and> take 2 d = ''55'' then Some (''https://wa.me/'' @ d)
      else None)"
proof (cases "phone = []")
  case True
  then show ?thesis by (simp add: detect_whatsapp_def)
next
  case False
  then show ?thesis
    by (simp add: detect_whatsapp_def Let_def startswith_def numeral_2_eq_2)
qed

text \<open>
  Claim C8.  \<open>detect_whatsapp\<close> returns a link exactly when the digits of the phone
  string are 11 (the link is \<open>https://wa.me/55\<close> followed by the digits) or are 13
  beginning with \<open>55\<close> (the link is \<open>https://wa.me/\<close> followed by the digits);
  every other phone string, the empty one and those with 7, 10 or 12 digits included,
  gives no link.
\<close>

theorem C8_detect_whatsapp_link:
  "detect_whatsapp phone = Some link \<longleftrightarrow>
     (length (filter isdigit phone) = 11 \<and> link = ''https://wa.me/55'' @ filter isdigit phone)
   \<or> (length (filter isdigit phone) = 13 \<and> take 2 (filter isdigit phone) = ''55''
        \<and> link = ''https://wa.me/'' @ filter isdigit phone)"
  unfolding detect_whatsapp_digits Let_def by auto

theorem C8_detect_whatsapp_link_witness:
  "detect_whatsapp ''+5511999999999'' = Some ''https://wa.me/5511999999999''
   \<and> (\<forall>link. detect_whatsapp ''1234567'' \<noteq> Some link)"
  using C8_detect_whatsapp_link [of "''+5511999999999''" "''https://wa.me/5511999999999''"]
    C8_detect_whatsapp_link [of "''1234567''"]
  by (simp add: isdigit_def)

subsection \<open>The crawl plan\<close>

lemma plan_inv_step: "plan_inv b p \<Longrightarrow> plan_inv b (internal_step b p l)"
  unfolding plan_inv_def internal_step_def Let_def by auto

lemma plan_inv_foldl: "plan_inv b p \<Longrightarrow> plan_inv b (foldl (internal_step b) p ls)"
  by (induction ls arbitrary: p) (simp_all add: plan_inv_step)

text \<open>
  Claim C6.  For every list of internal links and every base URL, the crawl list
  (priority links followed by the other links) holds no normalized URL twice, and
  no URL in it equals the lead's root URL once trailing slashes are removed from both.
\<close>

theorem C6_crawl_list_distinct_no_root:
  "distinct (final_crawl_list (build_plan base_url internal_links external_links))
   \<and> (\<forall>u \<in> set (final_crawl_list (build_plan base_url internal_links external_links)).
          rstrip_slash u \<noteq> rstrip_slash base_url)"
proof -
  have "plan_inv base_url empty_plan"
    by (simp add: plan_inv_def empty_plan_def)
  then have "plan_inv base_url (foldl (internal_step base_url) empty_plan internal_links)"
    by (rule plan_inv_foldl)
  then show ?thesis
    by (auto simp: plan_inv_def build_plan_def final_crawl_list_def Let_def)
qed

theorem C6_crawl_list_distinct_no_root_witness:
  "final_crawl_list (build_plan ''http://a.com''
      [[(''href'', ''/x'')], [(''href'', ''http://a.com/'')], [(''href'', ''contato'')],
       [(''href'', ''x'')]] [])
     = [''http://a.com/contato'', ''http://a.com/x'']
   \<and> distinct [''http://a.com/contato'', ''http://a.com/x'']
   \<and> rstrip_slash ''http://a.com/contato'' \<noteq> rstrip_slash ''http://a.com''
   \<and> rstrip_slash ''http://a.com/x'' \<noteq> rstrip_slash ''http://a.com''"
proof -
  have e: "final_crawl_list (build_plan ''http://a.com''
      [[(''href'', ''/x'')], [(''href'', ''http://a.com/'')], [(''href'', ''contato'')],
       [(''href'', ''x'')]] [])
     = [''http://a.com/contato'', ''http://a.com/x'']"
    by code_simp
  show ?thesis
    using C6_crawl_list_distinct_no_root [of "''http://a.com''"
      "[[(''href'', ''/x'')], [(''href'', ''http://a.com/'')], [(''href'', ''contato'')],
        [(''href'', ''x'')]]" "[]"]
    unfolding e by simp
qed

subsection \<open>The streaming reader\<close>

lemma strip_Nil: "strip [] = []"
  by (simp add: strip_def)

lemma follow_loop_step:
  "strip (rd i) \<noteq> ''__END__'' \<Longrightarrow>
   follow_loop loads rd i acc = follow_loop loads rd (Suc i) (acc @ jsonl_entry loads (rd i))"
  by (subst follow_loop.simps) (simp add: jsonl_entry_def strip_Nil split: option.splits)

lemma follow_loop_stop:
  "strip (rd i) = ''__END__'' \<Longrightarrow> follow_loop loads rd i acc = Some acc"
  by (subst follow_loop.simps) (auto simp: strip_Nil)

text \<open>With the first sentinel \<open>k\<close> reads ahead, the loop returns there.\<close>

lemma follow_loop_reaches:
  "strip (rd (i + k)) = ''__END__'' \<Longrightarrow> (\<forall>m<k. strip (rd (i + m)) \<noteq> ''__END__'') \<Longrightarrow>
   follow_loop loads rd i acc = Some (acc @ iter_jsonl_objects loads (map rd [i..<i + k]))"
proof (induction k arbitrary: i acc)
  case 0
  then show ?case by (simp add: follow_loop_stop iter_jsonl_objects_def)
next
  case (Suc k)
  have a: "strip (rd (Suc i + k)) = ''__END__''"
    using Suc.prems(1) by simp
  have b: "\<forall>m<k. strip (rd (Suc i + m)) \<noteq> ''__END__''"
  proof (intro allI impI)
    fix m assume "m < k"
    then have "Suc m < Suc k" by simp
    with Suc.prems(2) have "strip (rd (i + Suc m)) \<noteq> ''__END__''" by blast
    then show "strip (rd (Suc i + m)) \<noteq> ''__END__''" by simp
  qed
  have c: "strip (rd i) \<noteq> ''__END__''"
    using Suc.prems(2) [rule_format, of 0] by simp
  have r: "[i..<i + Suc k] = i # [Suc i..<Suc i + k]"
    by (simp add: upt_rec)
  have "follow_loop loads rd i acc
          = follow_loop loads rd (Suc i) (acc @ jsonl_entry loads (rd i))"
    using c by (rule follow_loop_step)
  also have "\<dots> = Some ((acc @ jsonl_entry loads (rd i))
                        @ iter_jsonl_objects loads (map rd [Suc i..<Suc i + k]))"
    using a b by (rule Suc.IH)
  finally show ?case
    unfolding r by (simp add: iter_jsonl_objects_def)
qed

text \<open>A loop that returns has read a sentinel: fixpoint induction on the loop.\<close>

lemma follow_loop_returns:
  assumes "follow_loop loads rd i acc = Some ys"
  shows "\<exists>n. strip (rd n) = ''__END__''"
proof (rule follow_loop.raw_induct
    [where P = "\<lambda>loads rd i acc ys. \<exists>n. strip (rd n) = ''__END__''"])
  show "follow_loop loads rd i acc = Some ys" by (rule assms)
next
  fix f loads' rd' i' acc' ys'
  assume ih: "\<And>loads rd i acc ys.
      f loads rd i acc = Some ys \<Longrightarrow> \<exists>n. strip (rd n) = ''__END__''"
    and body: "(if rd' i' = [] then f loads' rd' (Suc i') acc'
      else if strip (rd' i') = [] then f loads' rd' (Suc i') acc'
      else if strip (rd' i') = ''__END__'' then Some acc'
      else (case loads' (strip (rd' i')) of
              Some v \<Rightarrow> f loads' rd' (Suc i') (acc' @ [v])
            | None \<Rightarrow> f loads' rd' (Suc i') acc')) = Some ys'"
  from body show "\<exists>n. strip (rd' n) = ''__END__''"
    by (auto split: if_splits option.splits dest: ih)
qed

text \<open>
  Claim C9.  For every sequence of reads, the follow loop returns exactly when some
  read strips to \<open>__END__\<close>; with no such read it never returns, whatever empty or
  malformed lines it meets.  When it returns, it has yielded the entries of the lines
  before the first sentinel and nothing that comes after it.
\<close>

theorem C9_follow_loop_ends_at_sentinel:
  "((\<exists>ys. iter_jsonl_lines_follow loads rd = Some ys) \<longleftrightarrow> (\<exists>n. strip (rd n) = ''__END__''))
   \<and> (\<forall>n. strip (rd n) = ''__END__'' \<and> (\<forall>m<n. strip (rd m) \<noteq> ''__END__'') \<longrightarrow>
          iter_jsonl_lines_follow loads rd
            = Some (iter_jsonl_objects loads (map rd [0..<n])))"
proof -
  have reach: "iter_jsonl_lines_follow loads rd
                 = Some (iter_jsonl_objects loads (map rd [0..<n]))"
    if "strip (rd n) = ''__END__''" "\<forall>m<n. strip (rd m) \<noteq> ''__END__''" for n
    using follow_loop_reaches [of rd 0 n loads "[]"] that
    by (simp add: iter_jsonl_lines_follow_def)
  have "\<exists>ys. iter_jsonl_lines_follow loads rd = Some ys"
    if "strip (rd n) = ''__END__''" for n
  proof -
    define k where "k = (LEAST j. strip (rd j) = ''__END__'')"
    have "strip (rd k) = ''__END__''"
      unfolding k_def using that by (rule LeastI)
    moreover have "\<forall>m<k. strip (rd m) \<noteq> ''__END__''"
      unfolding k_def using not_less_Least by blast
    ultimately show ?thesis using reach by blast
  qed
  moreover have "\<exists>n. strip (rd n) = ''__END__''"
    if "iter_jsonl_lines_follow loads rd = Some ys" for ys
    using that follow_loop_returns unfolding iter_jsonl_lines_follow_def by blast
  ultimately show ?thesis using reach by blast
qed

theorem C9_follow_loop_ends_at_sentinel_witness:
  "strip (static_reader [''{}'' @ [CHR 0x0A], [CHR 0x0A], ''bad'' @ [CHR 0x0A],
                          '' __END__'' @ [CHR 0x0A], ''{}'' @ [CHR 0x0A]] 3) = ''__END__''
   \<and> iter_jsonl_lines_follow loads_empty_object
        (static_reader [''{}'' @ [CHR 0x0A], [CHR 0x0A], ''bad'' @ [CHR 0x0A],
                        '' __END__'' @ [CHR 0x0A], ''{}'' @ [CHR 0x0A]])
       = Some [JDict []]"
proof -
  let ?ls = "[''{}'' @ [CHR 0x0A], [CHR 0x0A], ''bad'' @ [CHR 0x0A],
              '' __END__'' @ [CHR 0x0A], ''{}'' @ [CHR 0x0A]]"
  let ?rd = "static_reader ?ls"
  have s0: "strip (?rd 0) = ''{}''" by code_simp
  have s1: "strip (?rd 1) = []" by code_simp
  have s2: "strip (?rd 2) = ''bad''" by code_simp
  have s3: "strip (?rd 3) = ''__END__''" by code_simp
  have before: "\<forall>m<3. strip (?rd m) \<noteq> ''__END__''"
  proof (intro allI impI)
    fix m :: nat assume "m < 3"
    then have "m = 0 \<or> m = 1 \<or> m = 2" by arith
    then show "strip (?rd m) \<noteq> ''__END__''" using s0 s1 s2 by auto
  qed
  have ys: "iter_jsonl_objects loads_empty_object (map ?rd [0..<3]) = [JDict []]"
    by code_simp
  from C9_follow_loop_ends_at_sentinel [of loads_empty_object ?rd] s3 before
  have "iter_jsonl_lines_follow loads_empty_object ?rd
          = Some (iter_jsonl_objects loads_empty_object (map ?rd [0..<3]))"
    by blast
  with ys s3 show ?thesis by simp
qed

subsection \<open>Tax identifier extraction\<close>

text \<open>
  Claim C4.  The claim has the BR pattern tried next for every text on which the
  hint's pattern did not match, as the comment in the source says (\<open>If no country or
  not found, try Brazil first\<close>).  With the hint \<open>US\<close> on a text that holds only a
  CNPJ, the hint's pattern does not match, the BR pattern on the same text does, and
  \<open>extract_tax_id\<close> returns nothing: the source runs the BR attempt only under
  \<open>not country_code or country_code.upper() == 'BR'\<close>.
\<close>

theorem C4_br_fallback_skipped:
  "hint_attempt ''CNPJ: 12.345.678/0001-90'' (Some ''US'') = None
   \<and> re_search False br_pattern ''CNPJ: 12.345.678/0001-90'' = Some ''12.345.678/0001-90''
   \<and> extract_tax_id ''CNPJ: 12.345.678/0001-90'' (Some ''US'') = None"
  by code_simp

text \<open>
  The three attempts of \<open>extract_tax_id\<close> as the source runs them, on a non-empty
  text: the pattern of a hint that has an entry in the table comes first and its match
  is returned; the BR attempt runs only with no hint or with the hint \<open>BR\<close>; with
  any other hint the generic pattern is all that is left.
\<close>

lemma extract_tax_id_order:
  "text \<noteq> [] \<Longrightarrow>
     (\<forall>cc pat ty name m.
        cc \<noteq> [] \<and> map_of patterns (upper cc) = Some (pat, ty, name)
        \<and> re_search True pat text = Some m \<longrightarrow>
        extract_tax_id text (Some cc)
          = Some \<lparr>tax_type = ty, tax_value = m, tax_country = upper cc, tax_name = name\<rparr>)
   \<and> (\<forall>hint. hint_attempt text hint = None
          \<and> (\<not> hint_given hint \<or> map_option upper hint = Some ''BR'') \<longrightarrow>
        extract_tax_id text hint =
          (case re_search False br_pattern text of
             Some m \<Rightarrow>
               Some \<lparr>tax_type = ''CNPJ'', tax_value = m, tax_country = ''BR'',
                     tax_name = ''Cadastro Nacional da Pessoa Jur'' @ [CHR 0xED] @ ''dica''\<rparr>
           | None \<Rightarrow> vat_attempt text))
   \<and> (\<forall>cc. cc \<noteq> [] \<and> upper cc \<noteq> ''BR'' \<and> hint_attempt text (Some cc) = None \<longrightarrow>
        extract_tax_id text (Some cc) = vat_attempt text)"
  by (auto simp: extract_tax_id_def hint_attempt_def br_attempt_def hint_given_def
      split: option.splits)

lemma extract_tax_id_order_example:
  "extract_tax_id ''ein 12-3456789'' (Some ''us'')
     = Some \<lparr>tax_type = ''EIN'', tax_value = ''12-3456789'', tax_country = ''US'',
             tax_name = ''Employer Identification Number''\<rparr>
   \<and> extract_tax_id ''12.345.678/0001-90'' None
     = Some \<lparr>tax_type = ''CNPJ'', tax_value = ''12.345.678/0001-90'', tax_country = ''BR'',
             tax_name = ''Cadastro Nacional da Pessoa Jur'' @ [CHR 0xED] @ ''dica''\<rparr>"
proof -
  have u: "upper ''us'' = ''US''" by code_simp
  have p: "map_of patterns ''US''
             = Some ([dig 2, lit CHR ''-'', dig 7], ''EIN'', ''Employer Identification Number'')"
    by (simp add: patterns_def)
  have m: "re_search True [dig 2, lit CHR ''-'', dig 7] ''ein 12-3456789'' = Some ''12-3456789''"
    by code_simp
  have a: "extract_tax_id ''ein 12-3456789'' (Some ''us'')
     = Some \<lparr>tax_type = ''EIN'', tax_value = ''12-3456789'', tax_country = ''US'',
             tax_name = ''Employer Identification Number''\<rparr>"
    using extract_tax_id_order [of "''ein 12-3456789''"] u p m by auto
  have h: "hint_attempt ''12.345.678/0001-90'' None = None"
    by (simp add: hint_attempt_def)
  have b: "re_search False br_pattern ''12.345.678/0001-90'' = Some ''12.345.678/0001-90''"
    by code_simp
  have "extract_tax_id ''12.345.678/0001-90'' None
     = Some \<lparr>tax_type = ''CNPJ'', tax_value = ''12.345.678/0001-90'', tax_country = ''BR'',
             tax_name = ''Cadastro Nacional da Pessoa Jur'' @ [CHR 0xED] @ ''dica''\<rparr>"
    using extract_tax_id_order [of "''12.345.678/0001-90''"] h b
    by (auto simp: hint_given_def)
  with a show ?thesis by simp
qed

subsection \<open>Email discovery\<close>




lemma hr_simps [simp]:
  "hunter_requests [] = 0"
  "hunter_requests (HunterRequest d # xs) = Suc (hunter_requests xs)"
  "hunter_requests (Sleep w # xs) = hunter_requests xs"
  by (simp_all add: hunter_requests_def)







text \<open>A header that \<open>int\<close> rejects, or an empty one, gives the backoff as well.\<close>

lemma wait_seconds_unreadable:
  "h = [] \<or> int_of_str e h = None \<Longrightarrow> wait_seconds e (Some h) k = 2 ^ k"
  by (auto simp: wait_seconds_def)



subsection \<open>The loops of \<open>main\<close>\<close>

text \<open>A lead that has a name only, in the concrete world.\<close>

lemma take_system_context: "take 20000 (system_context None []) = system_context None []"
  by (simp add: system_context_def nl_def)

lemma example_process_lead:
  "process_lead example_env None (JDict [(''nome_empresa'', JStr name)])
     = Inr ([Completion (system_context None []) (JDict [(''nome_empresa'', JStr name)]) []],
            Some (JDict [(''company_info'',
                          JDict [(''name'', if str_contains ''Pendente'' name then JNull
                                            else JStr name)]),
                         (''cnpja_data'', JNull)]))"
  by (simp add: process_lead_def example_env_def dict_get_def
     website_of_def bind_err_def py_truthy_def post_process_def contact_stage_def py_in_def
     cnpja_stage_def py_get_def py_setitem_def is_pending_def take_system_context)

text \<open>
  The block for one lead, on a lead without a usable website: no page is crawled and no
  email is searched, the completion service gets the raw record with the system
  context alone, and a profile that survives post-processing is appended.
\<close>

lemma process_lead_no_website:
  assumes "website_of (dict_get d ''website'' JNull) = Inr None"
    and "chat_completion e (system_context None []) (JDict d) [] = Some clean_profile"
    and "py_truthy clean_profile"
    and "post_process e clean_profile = Inr (l, p)"
  shows "process_lead e search_country (JDict d)
           = Inr (Completion (system_context None []) (JDict d) [] # l, Some p)"
  using assms by (simp add: process_lead_def bind_err_def take_system_context)

text \<open>One round of the follow loop of \<open>main\<close>.\<close>

lemma follow_for_stop:
  "strip (rd i) = ''__END__'' \<Longrightarrow> follow_for e sc rd i st = Some (Inr st)"
  by (subst follow_for.simps) (auto simp: strip_def)

lemma follow_for_item:
  "strip (rd i) = line \<Longrightarrow> line \<noteq> [] \<Longrightarrow> line \<noteq> ''__END__'' \<Longrightarrow>
   json_loads e line = Some item \<Longrightarrow> process_item e sc st item = Inr st' \<Longrightarrow>
   follow_for e sc rd i st = follow_for e sc rd (Suc i) st'"
  by (subst follow_for.simps) (auto simp: strip_def)

text \<open>
  Claim C1 says that a lead is processed at most once and that the output holds at
  most one profile for it.  In streaming mode the backfill loop reads the file to its
  end, and the follow loop then opens the file again and reads it from its first line.
  On a queue file with the one lead \<open>A\<close> followed by the sentinel, the lead is fused
  twice and the output holds its profile twice.
\<close>

theorem C1_stream_lead_fused_twice:
  "\<exists>r. main example_env [''enrich_leads.py'', ''queue.jsonl''] ''final_leads.json''
           {''queue.jsonl''}
           \<lparr>snapshot = [lead_A_text @ nl, ''__END__'' @ nl], appended = (\<lambda>i. [])\<rparr>
         = Some (Inr r)
       \<and> calls r = [Completion (system_context None []) lead_A [],
                    Completion (system_context None []) lead_A []]
       \<and> final_leads r = [example_profile (JStr ''A''), example_profile (JStr ''A'')]"
proof -
  define q where
    "q = \<lparr>snapshot = [lead_A_text @ nl, ''__END__'' @ nl], appended = (\<lambda>i. [])\<rparr>"
  let ?c = "Completion (system_context None []) lead_A []"
  let ?p = "example_profile (JStr ''A'')"
  have sm: "stream_mode_of ''queue.jsonl''" by code_simp
  have backfill: "iter_jsonl_objects (json_loads example_env) (snapshot q) = [lead_A]"
    unfolding q_def by code_simp
  have item: "process_item example_env None (cs, ps) lead_A = Inr (cs @ [?c], ps @ [?p])"
    for cs ps
    by (simp add: process_item_def lead_A_def example_process_lead bind_err_def
        example_profile_def startswith_def)
  have first: "process_all example_env None ([], []) [lead_A] = Inr ([?c], [?p])"
    by (simp add: item bind_err_def)
  have r0: "strip (follow_reads q 0) = lead_A_text"
    unfolding q_def by code_simp
  have r1: "strip (follow_reads q (Suc 0)) = ''__END__''"
    unfolding q_def by code_simp
  have l: "lead_A_text \<noteq> []" "lead_A_text \<noteq> ''__END__''"
    "json_loads example_env lead_A_text = Some lead_A"
    by (simp_all add: lead_A_text_def example_env_def example_loads_def)
  have "follow_for example_env None (follow_reads q) 0 ([?c], [?p])
          = follow_for example_env None (follow_reads q) (Suc 0) ([?c, ?c], [?p, ?p])"
    using r0 l item [of "[?c]" "[?p]", simplified] by (rule follow_for_item)
  also have "\<dots> = Some (Inr ([?c, ?c], [?p, ?p]))"
    using r1 by (rule follow_for_stop)
  finally have follow: "follow_for example_env None (follow_reads q) 0 ([?c], [?p])
                          = Some (Inr ([?c, ?c], [?p, ?p]))" .
  have "main example_env [''enrich_leads.py'', ''queue.jsonl''] ''final_leads.json''
          {''queue.jsonl''} q
        = Some (Inr (finish True ''queue.jsonl'' ''final_leads.json'' {''queue.jsonl''}
                       ([?c, ?c], [?p, ?p])))"
    by (simp add: main_def Let_def sm backfill item bind_err_def follow)
  then show ?thesis
    unfolding q_def by (simp add: finish_def)
qed

text \<open>
  Claim C2 says that every entry without a usable website is fused and gets a profile,
  not only the last one.  In bounded mode the processing stands after the \<open>for\<close>
  loop, not inside it: on the array of the two leads \<open>A\<close> and \<open>B\<close>, neither with a
  website, only \<open>B\<close> is fused and the output holds the profile of \<open>B\<close> alone.
\<close>

theorem C2_bounded_only_last_lead:
  "\<exists>r. main example_env [''enrich_leads.py'', ''leads.json''] ''final_leads.json''
           {''leads.json''}
           \<lparr>snapshot = [two_leads_text], appended = (\<lambda>i. [])\<rparr>
         = Some (Inr r)
       \<and> calls r = [Completion (system_context None []) lead_B []]
       \<and> final_leads r = [example_profile (JStr ''B'')]"
proof -
  define q where "q = \<lparr>snapshot = [two_leads_text], appended = (\<lambda>i. [])\<rparr>"
  let ?c = "Completion (system_context None []) lead_B []"
  let ?p = "example_profile (JStr ''B'')"
  have sm: "\<not> stream_mode_of ''leads.json''" by code_simp
  have loaded: "json_loads example_env (concat (snapshot q)) = Some (JList [lead_A, lead_B])"
    unfolding q_def
    by (simp add: example_env_def example_loads_def two_leads_text_def lead_A_text_def)
  have loop: "bounded_loop [lead_A, lead_B] = Inr lead_B"
    by (simp add: bounded_loop_def is_dict_def lead_A_def lead_B_def)
  have item: "process_item example_env None ([], []) lead_B = Inr ([?c], [?p])"
    by (simp add: process_item_def lead_B_def example_process_lead bind_err_def
        example_profile_def startswith_def)
  have run: "bounded_run example_env None q = Inr ([?c], [?p])"
    by (simp add: bounded_run_def loaded py_iter_def bind_err_def loop item)
  have "main example_env [''enrich_leads.py'', ''leads.json''] ''final_leads.json''
          {''leads.json''} q
        = Some (Inr (finish False ''leads.json'' ''final_leads.json'' {''leads.json''}
                       ([?c], [?p])))"
    by (simp add: main_def Let_def sm run)
  then show ?thesis
    unfolding q_def by (simp add: finish_def)
qed

text \<open>
  Claim C10.  A run in streaming mode that reaches the end of \<open>main\<close> has written
  the output file and done nothing else to the file system: the input file is still
  there.  A run that removes a file is in bounded mode, removes the input file, and
  does so after writing the output file.
\<close>

theorem C10_stream_keeps_input:
  "main e argv final_file fs q = Some (Inr r) \<Longrightarrow>
     (2 \<le> length argv \<and> stream_mode_of (argv ! 1) \<and> argv ! 1 \<in> fs \<longrightarrow>
        argv ! 1 \<in> files r \<and> fs_ops r = [WriteFile final_file (final_leads r)])
   \<and> (\<forall>p. RemoveFile p \<in> set (fs_ops r) \<longrightarrow>
          \<not> stream_mode_of (argv ! 1) \<and> p = argv ! 1
          \<and> fs_ops r = [WriteFile final_file (final_leads r), RemoveFile p])"
  by (auto simp: main_def finish_def Let_def split: if_splits sum.splits option.splits)

theorem C10_stream_keeps_input_witness:
  "\<exists>r. main example_env [''enrich_leads.py'', ''queue.jsonl''] ''final_leads.json''
           {''queue.jsonl''}
           \<lparr>snapshot = [''__END__'' @ nl], appended = (\<lambda>i. [])\<rparr>
         = Some (Inr r)
       \<and> ''queue.jsonl'' \<in> files r
       \<and> fs_ops r = [WriteFile ''final_leads.json'' (final_leads r)]"
proof -
  let ?argv = "[''enrich_leads.py'', ''queue.jsonl'']"
  let ?q = "\<lparr>snapshot = [''__END__'' @ nl], appended = (\<lambda>i. [])\<rparr>"
  let ?r = "\<lparr>calls = [], final_leads = [],
             fs_ops = [WriteFile ''final_leads.json'' []],
             files = {''final_leads.json'', ''queue.jsonl''}\<rparr>"
  have run: "main example_env ?argv ''final_leads.json'' {''queue.jsonl''} ?q = Some (Inr ?r)"
    by code_simp
  have sm: "stream_mode_of (?argv ! 1)" by code_simp
  from C10_stream_keeps_input [OF run] sm
  have "?argv ! 1 \<in> files ?r \<and> fs_ops ?r = [WriteFile ''final_leads.json'' (final_leads ?r)]"
    by simp
  with run show ?thesis by auto
qed

end
